theory Spec2Isabelle
  imports Main
begin

section \<open>Shared data: bytes, content identifiers, blocks, errors\<close>

type_synonym bytes = string

text \<open>
  Modelled from the spec: the CID type belongs to the dependency go-cid and is not part of
  the sources. A content identifier is "a self-describing, versioned content address
  carrying a hash-function identifier and a hash digest": the prefix is what
  \<^verbatim>\<open>c.Prefix()\<close> returns, the digest is the hash the identifier embeds.
\<close>

datatype cid_prefix =
  CidPrefix (Version: nat) (Codec: nat) (MhType: nat) (MhLength: int)

datatype cid = Cid (Prefix: cid_prefix) (Digest: bytes)

text \<open>A block is the pair of go-block-format's \<^verbatim>\<open>BasicBlock\<close>: raw data and its CID.\<close>

datatype block = Block (RawData: bytes) (BlockCid: cid)

text \<open>
  Every error value the modelled functions build. A constructor stands for one
  \<^verbatim>\<open>errors.New\<close> or \<^verbatim>\<open>fmt.Errorf\<close> of the sources and carries the values
  the format string prints; \<open>ErrExternal\<close> is an error handed up by a collaborator
  (transport, DNS, record validation, multihash).
\<close>

datatype error =
    ErrWrongHash
  | ErrNotImplemented
  | ErrMissingGatewayURLs
  | ErrGatewayMustBeSet
  | ErrHttpBlockGateway string
  | ErrHttpCarGateway string error
  | ErrCouldNotReadErrorMessage error
  | ErrQuoted bytes
  | ErrNewRequest error
  | ErrClientDo error
  | ErrReadingErrorBody error
  | ErrGET string string bytes
  | ErrCreatingCarReader error
  | ErrReadingBlockFromCar error
  | ErrPuttingBlock error
  | ErrFailedToResolve error
  | ErrExpectedImmutable
  | ErrContentIntegrity cid cid
  | ErrEOF
  | ErrExternal string
  | PanicIntn

section \<open>The HTTP exchange and the hash function, as the environment gives them\<close>

text \<open>
  A reader is what \<^verbatim>\<open>io.ReadAll\<close> can get out of a response body: the bytes it
  delivers, followed by end-of-stream (\<open>None\<close>) or by a read error.
\<close>

datatype reader = Reader (content: bytes) (failure: "error option")

datatype request = Request (url: string) (headers: "(string \<times> string) list")

datatype response = Response (StatusCode: int) (Status: string) (Body: reader)

text \<open>
  The collaborators the code calls and the sources do not contain, taken as parameters:
  \<^item> \<open>newRequest\<close>: the error of \<^verbatim>\<open>http.NewRequestWithContext\<close> for a URL, if any;
  \<^item> \<open>clientDo\<close>: \<^verbatim>\<open>httpClient.Do\<close>, a transport error or a response;
  \<^item> \<open>bodyClose\<close>: the error of \<^verbatim>\<open>resp.Body.Close()\<close>, if any;
  \<^item> \<open>mhSum\<close>: the multihash function selected by a hash-function code and a length;
  \<^item> \<open>cidString\<close>: the text of a CID, as \<^verbatim>\<open>%s\<close> prints it;
  \<^item> \<open>uDebug\<close>: the flag \<^verbatim>\<open>u.Debug\<close> read by \<^verbatim>\<open>blocks.NewBlockWithCid\<close>;
  \<^item> \<open>randNext\<close>: one draw of the \<^verbatim>\<open>rand.Rand\<close> source and its next state.
\<close>

record world =
  newRequest :: "string \<Rightarrow> error option"
  clientDo :: "request \<Rightarrow> error + response"
  bodyClose :: "reader \<Rightarrow> error option"
  mhSum :: "nat \<Rightarrow> int \<Rightarrow> bytes \<Rightarrow> error + bytes"
  cidString :: "cid \<Rightarrow> string"
  uDebug :: bool
  randNext :: "int \<Rightarrow> nat \<times> int"

definition ReadAll :: "reader \<Rightarrow> error + bytes" where
  "ReadAll r = (case failure r of None \<Rightarrow> Inr (content r) | Some e \<Rightarrow> Inl e)"

text \<open>
  Modelled from the spec: \<^verbatim>\<open>Prefix.Sum\<close> of go-cid is not part of the sources. It
  "computes the digest using the hash function named in that block's CID" and builds the
  CID with the same prefix around that digest.
\<close>

definition Sum :: "world \<Rightarrow> cid_prefix \<Rightarrow> bytes \<Rightarrow> error + cid" where
  "Sum w p data =
     (case mhSum w (MhType p) (MhLength p) data of
        Inl e \<Rightarrow> Inl e
      | Inr d \<Rightarrow> Inr (Cid p d))"

text \<open>
  \<^verbatim>\<open>blocks.NewBlockWithCid\<close> of go-block-format (a dependency): it checks the hash only
  when \<^verbatim>\<open>u.Debug\<close> is set, and returns a non-nil block exactly when it returns no
  error. The result is Go's pair (block, error).
\<close>

definition NewBlockWithCid :: "world \<Rightarrow> bytes \<Rightarrow> cid \<Rightarrow> block option \<times> error option" where
  "NewBlockWithCid w data c =
     (if uDebug w then
        (case Sum w (Prefix c) data of
           Inl e \<Rightarrow> (None, Some e)
         | Inr chkc \<Rightarrow>
             if chkc \<noteq> c then (None, Some ErrWrongHash)
             else (Some (Block data c), None))
      else (Some (Block data c), None))"

section \<open>The proxy block store (package gateway)\<close>

text \<open>
  The struct \<^verbatim>\<open>proxyBlockstore\<close>. The HTTP client is kept as its timeout in seconds
  and whether it dials through the cached DNS; \<open>rand\<close> is the state of the random source.
\<close>

record proxyBlockstore =
  clientTimeout :: nat
  dialCachedDNS :: bool
  gatewayURL :: "string list"
  validate :: bool
  rand :: int

definition getBlockTimeout :: nat where
  "getBlockTimeout = 60"

text \<open>
  \<^verbatim>\<open>NewProxyBlockstore(gatewayURL, cdns)\<close>; \<open>now\<close> is \<^verbatim>\<open>time.Now().Unix()\<close>, the
  seed of the random source, and \<open>cdns\<close> says whether the cached DNS is non-nil.
\<close>

definition NewProxyBlockstore ::
  "int \<Rightarrow> string list \<Rightarrow> bool \<Rightarrow> proxyBlockstore option \<times> error option" where
  "NewProxyBlockstore now urls cdns =
     (if length urls = 0 then (None, Some ErrMissingGatewayURLs)
      else
        (Some \<lparr> clientTimeout = getBlockTimeout,
                 dialCachedDNS = cdns,
                 gatewayURL = urls,
                 validate = True,
                 rand = now \<rparr>,
         None))"

text \<open>
  \<^verbatim>\<open>ps.gatewayURL[ps.rand.Intn(len(ps.gatewayURL))]\<close>. \<^verbatim>\<open>Intn\<close> panics when its
  argument is not positive; the panic is the result \<open>None\<close>. The random source moves on.
\<close>

definition getRandomGatewayURL ::
  "world \<Rightarrow> proxyBlockstore \<Rightarrow> string option \<times> proxyBlockstore" where
  "getRandomGatewayURL w ps =
     (let n = length (gatewayURL ps) in
      if n = 0 then (None, ps)
      else
        (case randNext w (rand ps) of
           (v, s') \<Rightarrow> (Some (gatewayURL ps ! (v mod n)), ps\<lparr>rand := s'\<rparr>)))"

text \<open>
  \<^verbatim>\<open>proxyBlockstore.fetch\<close>. Each \<^verbatim>\<open>return nil, err\<close> of the source is a pair
  \<open>(None, Some err)\<close>; the last line returns what \<^verbatim>\<open>NewBlockWithCid\<close> returns. A panic
  of \<^verbatim>\<open>Intn\<close> is reported as the error \<open>PanicIntn\<close>.
\<close>

definition fetch ::
  "world \<Rightarrow> proxyBlockstore \<Rightarrow> cid \<Rightarrow> (block option \<times> error option) \<times> proxyBlockstore" where
  "fetch w ps c =
     (case getRandomGatewayURL w ps of
        (None, ps') \<Rightarrow> ((None, Some PanicIntn), ps')
      | (Some gw, ps') \<Rightarrow>
          (let urlStr = gw @ ''/ipfs/'' @ cidString w c @ ''?format=raw'' in
           case newRequest w urlStr of
             Some err \<Rightarrow> ((None, Some err), ps')
           | None \<Rightarrow>
               (case clientDo w (Request urlStr [(''Accept'', ''application/vnd.ipld.raw'')]) of
                  Inl err \<Rightarrow> ((None, Some err), ps')
                | Inr resp \<Rightarrow>
                    if StatusCode resp \<noteq> 200
                    then ((None, Some (ErrHttpBlockGateway (Status resp))), ps')
                    else
                      (case ReadAll (Body resp) of
                         Inl err \<Rightarrow> ((None, Some err), ps')
                       | Inr rb \<Rightarrow>
                           if validate ps then
                             (case Sum w (Prefix c) rb of
                                Inl err \<Rightarrow> ((None, Some ErrWrongHash), ps')
                              | Inr nc \<Rightarrow>
                                  if nc \<noteq> c then ((None, Some ErrWrongHash), ps')
                                  else (NewBlockWithCid w rb c, ps'))
                           else (NewBlockWithCid w rb c, ps')))))"

definition Has :: "world \<Rightarrow> proxyBlockstore \<Rightarrow> cid \<Rightarrow> (bool \<times> error option) \<times> proxyBlockstore" where
  "Has w ps c =
     (case fetch w ps c of
        ((blk, err), ps') \<Rightarrow>
          if err \<noteq> None then ((False, err), ps')
          else ((blk \<noteq> None, None), ps'))"

definition Get ::
  "world \<Rightarrow> proxyBlockstore \<Rightarrow> cid \<Rightarrow> (block option \<times> error option) \<times> proxyBlockstore" where
  "Get w ps c =
     (case fetch w ps c of
        ((blk, err), ps') \<Rightarrow>
          if err \<noteq> None then ((None, err), ps')
          else ((blk, None), ps'))"

text \<open>
  \<^verbatim>\<open>GetSize\<close> returns \<^verbatim>\<open>len(blk.RawData())\<close>; a nil block there would be a
  nil dereference, which \<open>None\<close> in the size stands for.
\<close>

definition GetSize ::
  "world \<Rightarrow> proxyBlockstore \<Rightarrow> cid \<Rightarrow> (nat option \<times> error option) \<times> proxyBlockstore" where
  "GetSize w ps c =
     (case fetch w ps c of
        ((blk, err), ps') \<Rightarrow>
          if err \<noteq> None then ((Some 0, err), ps')
          else ((map_option (\<lambda>b. length (RawData b)) blk, None), ps'))"

text \<open>
  \<^verbatim>\<open>proxyBlockstore.Fetch\<close>, the archive fetch: \<open>cb\<close> is the callback that consumes
  the body. The error for a status other than 200 is
  \<^verbatim>\<open>"http error from car gateway: %s: %w"\<close> around the quoted body text, or around
  \<^verbatim>\<open>"could not read error message: %w"\<close> when the body cannot be read.
\<close>

definition Fetch ::
  "world \<Rightarrow> proxyBlockstore \<Rightarrow> string \<Rightarrow> (string \<Rightarrow> reader \<Rightarrow> error option) \<Rightarrow>
     error option \<times> proxyBlockstore" where
  "Fetch w ps pth cb =
     (case getRandomGatewayURL w ps of
        (None, ps') \<Rightarrow> (Some PanicIntn, ps')
      | (Some gw, ps') \<Rightarrow>
          (let urlStr = gw @ pth in
           case newRequest w urlStr of
             Some err \<Rightarrow> (Some err, ps')
           | None \<Rightarrow>
               (case clientDo w
                       (Request urlStr [(''Accept'', ''application/vnd.ipld.car;order=dfs;dups=y'')]) of
                  Inl err \<Rightarrow> (Some err, ps')
                | Inr resp \<Rightarrow>
                    if StatusCode resp \<noteq> 200 then
                      (case ReadAll (Body resp) of
                         Inl err \<Rightarrow>
                           (Some (ErrHttpCarGateway (Status resp) (ErrCouldNotReadErrorMessage err)),
                            ps')
                       | Inr errData \<Rightarrow>
                           (Some (ErrHttpCarGateway (Status resp) (ErrQuoted errData)), ps'))
                    else
                      (case cb pth (Body resp) of
                         Some err \<Rightarrow> (Some err, ps')
                       | None \<Rightarrow> (bodyClose w (Body resp), ps')))))"

definition HashOnRead :: "proxyBlockstore \<Rightarrow> bool \<Rightarrow> proxyBlockstore" where
  "HashOnRead ps enabled = ps\<lparr>validate := enabled\<rparr>"

text \<open>The four write operations: the error they return, and the store after the call.\<close>

definition Put :: "proxyBlockstore \<Rightarrow> block \<Rightarrow> error option \<times> proxyBlockstore" where
  "Put c b = (Some ErrNotImplemented, c)"

definition PutMany :: "proxyBlockstore \<Rightarrow> block list \<Rightarrow> error option \<times> proxyBlockstore" where
  "PutMany c bs = (Some ErrNotImplemented, c)"

definition AllKeysChan ::
  "proxyBlockstore \<Rightarrow> (cid list option \<times> error option) \<times> proxyBlockstore" where
  "AllKeysChan c = ((None, Some ErrNotImplemented), c)"

definition DeleteBlock :: "proxyBlockstore \<Rightarrow> cid \<Rightarrow> error option \<times> proxyBlockstore" where
  "DeleteBlock c k = (Some ErrNotImplemented, c)"

section \<open>Content paths and the naming collaborators (package main)\<close>

text \<open>
  Modelled from the spec: the path package is not part of the sources. A content path is
  "a sequence of segments rooted at either an immutable CID or a mutable name", and it is
  "mutable iff its root is a name rather than a direct CID". The path package only builds
  paths of at least two segments, the namespace and the root, so \<^verbatim>\<open>p.Segments()[1]\<close>
  is the root; an immutable path is the same path, known to be rooted at a CID.
\<close>

datatype namespace = IPFS | IPLD | IPNS

datatype path = Path (Namespace: namespace) (Root: string) (Remainder: "string list")

definition namespaceString :: "namespace \<Rightarrow> string" where
  "namespaceString ns = (case ns of IPFS \<Rightarrow> ''ipfs'' | IPLD \<Rightarrow> ''ipld'' | IPNS \<Rightarrow> ''ipns'')"

definition Segments :: "path \<Rightarrow> string list" where
  "Segments p = namespaceString (Namespace p) # Root p # Remainder p"

definition String :: "path \<Rightarrow> string" where
  "String p = concat (map (\<lambda>s. ''/'' @ s) (Segments p))"

definition Mutable :: "path \<Rightarrow> bool" where
  "Mutable p = (Namespace p = IPNS)"

definition NewImmutablePath :: "path \<Rightarrow> error + path" where
  "NewImmutablePath p = (if Mutable p then Inl ErrExpectedImmutable else Inr p)"

text \<open>
  The naming collaborators, taken as parameters: parsing a name
  (\<^verbatim>\<open>ipns.NameFromString\<close>; a name is kept as its text), decoding and validating a
  record, the record's value, the DNSLink resolver of namesys, and the constant
  \<^verbatim>\<open>ipns.MaxRecordSize\<close>. The type of records is left open.
\<close>

record 'r naming =
  NameFromString :: "string \<Rightarrow> error + string"
  UnmarshalRecord :: "bytes \<Rightarrow> error + 'r"
  ValidateWithName :: "'r \<Rightarrow> string \<Rightarrow> error option"
  RecordValue :: "'r \<Rightarrow> error + path"
  dnsResolve :: "path \<Rightarrow> error + path"
  MaxRecordSize :: int

definition AsPath :: "string \<Rightarrow> path" where
  "AsPath name = Path IPNS name []"

section \<open>The fetcher (package main)\<close>

record fetcher =
  gateway :: string
  limit :: int
  userAgent :: string

text \<open>A \<^verbatim>\<open>fetcherOption\<close> mutates the fetcher and may fail.\<close>

type_synonym fetcherOption = "fetcher \<Rightarrow> error + fetcher"

definition withUserAgent :: "string \<Rightarrow> fetcherOption" where
  "withUserAgent ua = (\<lambda>f. Inr (f\<lparr>userAgent := ua\<rparr>))"

definition withLimit :: "int \<Rightarrow> fetcherOption" where
  "withLimit l = (\<lambda>f. Inr (f\<lparr>limit := l\<rparr>))"

text \<open>\<^verbatim>\<open>strings.TrimRight(s, cutset)\<close>: all trailing characters of the cutset removed.\<close>

definition TrimRight :: "string \<Rightarrow> string \<Rightarrow> string" where
  "TrimRight s cutset = rev (dropWhile (\<lambda>c. c \<in> set cutset) (rev s))"

fun applyOptions :: "fetcher \<Rightarrow> fetcherOption list \<Rightarrow> error + fetcher" where
  "applyOptions f [] = Inr f"
| "applyOptions f (option # options) =
     (case option f of
        Inl err \<Rightarrow> Inl err
      | Inr f' \<Rightarrow> applyOptions f' options)"

definition newFetcher :: "string \<Rightarrow> fetcherOption list \<Rightarrow> error + fetcher" where
  "newFetcher gw options =
     (if gw = [] then Inl ErrGatewayMustBeSet
      else applyOptions \<lparr> gateway = TrimRight gw ''/'', limit = 0, userAgent = [] \<rparr> options)"

text \<open>
  \<^verbatim>\<open>newLimitReadCloser\<close>: an \<^verbatim>\<open>io.LimitedReader\<close> stops with end-of-stream after
  \<open>lim\<close> bytes and never sees what the wrapped reader does after them.
\<close>

definition newLimitReadCloser :: "reader \<Rightarrow> int \<Rightarrow> reader" where
  "newLimitReadCloser rc lim =
     (if lim \<le> int (length (content rc)) then Reader (take (nat lim) (content rc)) None
      else rc)"

text \<open>
  \<^verbatim>\<open>fetcher.httpRequest\<close>. The line printed to standard output is left out. The result
  is the body still to be read, limited when the fetcher has a limit.
\<close>

definition httpRequest :: "world \<Rightarrow> fetcher \<Rightarrow> path \<Rightarrow> string \<Rightarrow> error + reader" where
  "httpRequest w f p accept =
     (let u = gateway f @ String p in
      case newRequest w u of
        Some err \<Rightarrow> Inl (ErrNewRequest err)
      | None \<Rightarrow>
          (case clientDo w
                  (Request u
                     ((''Accept'', accept) #
                      (if userAgent f \<noteq> [] then [(''User-Agent'', userAgent f)] else []))) of
             Inl err \<Rightarrow> Inl (ErrClientDo err)
           | Inr resp \<Rightarrow>
               if 400 \<le> StatusCode resp then
                 (case ReadAll (Body resp) of
                    Inl err \<Rightarrow> Inl (ErrReadingErrorBody err)
                  | Inr mes \<Rightarrow> Inl (ErrGET u (Status resp) mes))
               else if 0 < limit f then Inr (newLimitReadCloser (Body resp) (limit f))
               else Inr (Body resp)))"

definition resolveIPNS :: "world \<Rightarrow> 'r naming \<Rightarrow> fetcher \<Rightarrow> string \<Rightarrow> error + path" where
  "resolveIPNS w nm f name =
     (case httpRequest w f (AsPath name) ''application/vnd.ipfs.ipns-record'' of
        Inl err \<Rightarrow> Inl err
      | Inr rc \<Rightarrow>
          (case ReadAll (newLimitReadCloser rc (MaxRecordSize nm)) of
             Inl err \<Rightarrow> Inl err
           | Inr rawRecord \<Rightarrow>
               (case UnmarshalRecord nm rawRecord of
                  Inl err \<Rightarrow> Inl err
                | Inr rec \<Rightarrow>
                    (case ValidateWithName nm rec name of
                       Some err \<Rightarrow> Inl err
                     | None \<Rightarrow> RecordValue nm rec))))"

definition resolveDNSLink :: "'r naming \<Rightarrow> path \<Rightarrow> error + path" where
  "resolveDNSLink nm p = dnsResolve nm p"

text \<open>The body of the loop of \<^verbatim>\<open>resolvePath\<close>: one record or one DNSLink followed.\<close>

definition resolveStep :: "world \<Rightarrow> 'r naming \<Rightarrow> fetcher \<Rightarrow> path \<Rightarrow> error + path" where
  "resolveStep w nm f p =
     (case NameFromString nm (Segments p ! 1) of
        Inr name \<Rightarrow> resolveIPNS w nm f name
      | Inl _ \<Rightarrow> resolveDNSLink nm p)"

text \<open>
  \<^verbatim>\<open>fetcher.resolvePath\<close>: \<^verbatim>\<open>for p.Mutable() { ... }\<close> and then
  \<^verbatim>\<open>path.NewImmutablePath(p)\<close>. The loop has no counter, so the function is partial:
  \<open>None\<close> is a run that never returns.
\<close>

partial_function (option) resolvePath ::
  "world \<Rightarrow> 'r naming \<Rightarrow> fetcher \<Rightarrow> path \<Rightarrow> (error + path) option" where
  "resolvePath w nm f p =
     (if Mutable p then
        (case resolveStep w nm f p of
           Inl err \<Rightarrow> Some (Inl err)
         | Inr p' \<Rightarrow> resolvePath w nm f p')
      else Some (NewImmutablePath p))"

text \<open>The same loop cut off after \<open>n\<close> iterations: \<open>None\<close> when \<open>n\<close> were not enough.\<close>

fun resolvePathWithin ::
  "nat \<Rightarrow> world \<Rightarrow> 'r naming \<Rightarrow> fetcher \<Rightarrow> path \<Rightarrow> (error + path) option" where
  "resolvePathWithin 0 w nm f p =
     (if Mutable p then None else Some (NewImmutablePath p))"
| "resolvePathWithin (Suc n) w nm f p =
     (if Mutable p then
        (case resolveStep w nm f p of
           Inl err \<Rightarrow> Some (Inl err)
         | Inr p' \<Rightarrow> resolvePathWithin n w nm f p')
      else Some (NewImmutablePath p))"

section \<open>Archive ingestion (package main)\<close>

text \<open>
  Modelled from the spec: the block store of the blockstore package is not part of the
  sources. The local block store is "a mapping from CID to verified bytes", and "duplicate
  writes of an already-present key are idempotent no-ops". Over the in-memory map
  datastore of \<^verbatim>\<open>carToFileStream\<close> a write does not fail.
\<close>

type_synonym blockstore = "cid \<rightharpoonup> bytes"

definition blockStorePut :: "blockstore \<Rightarrow> block \<Rightarrow> error option \<times> blockstore" where
  "blockStorePut bs b =
     (if BlockCid b \<in> dom bs then (None, bs)
      else (None, bs(BlockCid b \<mapsto> RawData b)))"

text \<open>
  Modelled from the spec: the CAR reader of go-car is not part of the sources. An archive
  is "a sequence of framed (CID, bytes) blocks terminated by end-of-stream"; a section is
  such a frame or malformed framing, and the header may be malformed as well.
  \<open>Next\<close> reads one section: "for every block, computes the digest using the hash
  function named in that block's CID and compares to the embedded digest"; at the end of
  the stream it returns no block and \<^verbatim>\<open>io.EOF\<close>.
\<close>

datatype frame = Frame cid bytes | Malformed

datatype car = Car (headerError: "error option") (sections: "frame list")

definition NewBlockReader :: "car \<Rightarrow> error + frame list" where
  "NewBlockReader r = (case headerError r of Some e \<Rightarrow> Inl e | None \<Rightarrow> Inr (sections r))"

definition Next :: "world \<Rightarrow> frame list \<Rightarrow> (block option \<times> error option) \<times> frame list" where
  "Next w fs =
     (case fs of
        [] \<Rightarrow> ((None, Some ErrEOF), [])
      | Malformed # rest \<Rightarrow> ((None, Some (ErrExternal ''malformed section'')), rest)
      | Frame c data # rest \<Rightarrow>
          (case Sum w (Prefix c) data of
             Inl e \<Rightarrow> ((None, Some e), rest)
           | Inr hashed \<Rightarrow>
               if hashed \<noteq> c then ((None, Some (ErrContentIntegrity c hashed)), rest)
               else (NewBlockWithCid w data c, rest)))"

text \<open>
  The loop \<^verbatim>\<open>for { block, err := car.Next(); ... blockStore.Put(ctx, block) }\<close> of
  \<^verbatim>\<open>carToFileStream\<close>. It returns the error of the loop if any, the block store and
  the sections it has not read.
\<close>

function addAllBlocks ::
  "world \<Rightarrow> blockstore \<Rightarrow> frame list \<Rightarrow> error option \<times> blockstore \<times> frame list" where
  "addAllBlocks w bs fs =
     (case Next w fs of
        ((blk, err), rest) \<Rightarrow>
          (case (case err of None \<Rightarrow> None | Some e \<Rightarrow> if e \<noteq> ErrEOF then Some e else None) of
             Some e \<Rightarrow> (Some (ErrReadingBlockFromCar e), bs, rest)
           | None \<Rightarrow>
               (case blk of
                  None \<Rightarrow> (None, bs, rest)
                | Some b \<Rightarrow>
                    (case blockStorePut bs b of
                       (Some e, bs') \<Rightarrow> (Some (ErrPuttingBlock e), bs', rest)
                     | (None, bs') \<Rightarrow> addAllBlocks w bs' rest))))"
  by pat_completeness auto
termination
  by (relation "measure (\<lambda>(w, bs, fs). length fs)")
     (auto simp: Next_def split: list.splits frame.splits sum.splits if_splits)

declare addAllBlocks.simps [simp del]

text \<open>
  \<^verbatim>\<open>carToFileStream\<close>. The block store is created empty inside the function. What
  follows the loop (resolving the path to its last node, loading it, building the UnixFS
  file) is the parameter \<open>materialize\<close>, which reads the block store only. The result is
  the file or the error, together with the block store and the unread sections as they
  are when the function returns.
\<close>

definition carToFileStream ::
  "world \<Rightarrow> (blockstore \<Rightarrow> path \<Rightarrow> error + bytes) \<Rightarrow> car \<Rightarrow> path \<Rightarrow>
     (error + bytes) \<times> blockstore \<times> frame list" where
  "carToFileStream w materialize r imPath =
     (case NewBlockReader r of
        Inl err \<Rightarrow> (Inl (ErrCreatingCarReader err), Map.empty, sections r)
      | Inr fs \<Rightarrow>
          (case addAllBlocks w Map.empty fs of
             (Some err, bs, rest) \<Rightarrow> (Inl err, bs, rest)
           | (None, bs, rest) \<Rightarrow> (materialize bs imPath, bs, rest)))"

section \<open>The notification bus (package notifications)\<close>

text \<open>
  The block of this package is the older \<^verbatim>\<open>blocks.Block\<close>: a multihash and data;
  \<^verbatim>\<open>block.Key()\<close> is the multihash as a key.
\<close>

datatype nblock = NBlock (Multihash: string) (Data: bytes)

definition Key :: "nblock \<Rightarrow> string" where
  "Key b = Multihash b"

text \<open>
  \<^verbatim>\<open>valuesCh\<close> is a channel of \<^verbatim>\<open>interface{}\<close>: a value on it is a block or
  something that fails the type assertion \<^verbatim>\<open>val.(*blocks.Block)\<close>.
\<close>

datatype val = BlockVal nblock | OtherVal

text \<open>
  One subscription, from \<^verbatim>\<open>Subscribe\<close> to the end of its goroutine:
  \<^item> \<open>keys\<close>: the keys of the call, duplicates included;
  \<^item> \<open>valuesCh\<close>: the buffer of the channel registered with the wrapped bus (capacity
    \<^verbatim>\<open>len(keys)\<close>), and \<open>valuesClosed\<close>: whether the bus has closed it;
  \<^item> \<open>blocksCh\<close>: every block sent on the returned channel so far, in order, and
    \<open>blocksClosed\<close>: whether \<^verbatim>\<open>close(blocksCh)\<close> has run;
  \<^item> \<open>registered\<close>: \<^verbatim>\<open>AddSub\<close> has run and neither \<^verbatim>\<open>Unsub\<close> nor a shutdown;
  \<^item> \<open>remaining\<close>: the iterations of \<^verbatim>\<open>for range keys\<close> still to run;
  \<^item> \<open>ctxDone\<close>: \<^verbatim>\<open>ctx.Done()\<close> is closed;
  \<^item> \<open>running\<close>: the goroutine has not returned.
\<close>

record subscription =
  keys :: "string list"
  valuesCh :: "val list"
  valuesClosed :: bool
  blocksCh :: "nblock list"
  blocksClosed :: bool
  registered :: bool
  remaining :: nat
  ctxDone :: bool
  running :: bool


text \<open>The deferred function of the goroutine: \<^verbatim>\<open>Unsub\<close> and \<^verbatim>\<open>close(blocksCh)\<close>.\<close>

definition retire :: "subscription \<Rightarrow> subscription" where
  "retire s = s\<lparr>registered := False, blocksClosed := True, running := False\<rparr>"

text \<open>
  What can happen to a subscription, one event at a time; the order of events is the
  interleaving chosen by the scheduler.
  \<^item> \<open>Publish b\<close>: \<^verbatim>\<open>impl.Publish\<close> hands the block to the wrapped bus under the
    topic \<^verbatim>\<open>string(block.Key())\<close>. Modelled from the spec: the wrapped bus is a
    dependency; it "fans a single block to every live subscription registered for that
    block's key", and a subscriber "may simply not receive blocks published while its
    queue is full".
  \<^item> \<open>Cancel\<close>: the context of the subscriber is cancelled or times out.
  \<^item> \<open>Shutdown\<close>: \<^verbatim>\<open>impl.Shutdown\<close>; the wrapped bus drops every registration and
    closes the channels registered with it.
  \<^item> \<open>GoDone\<close>: the outer \<^verbatim>\<open>select\<close> takes \<^verbatim>\<open>case <-ctx.Done()\<close>.
  \<^item> \<open>GoRecv d\<close>: the outer \<^verbatim>\<open>select\<close> takes \<^verbatim>\<open>case val, ok := <-valuesCh\<close>; \<open>d\<close>
    says that the inner \<^verbatim>\<open>select\<close> prefers \<^verbatim>\<open>case <-ctx.Done()\<close> when that case
    is ready. The send on \<^verbatim>\<open>blocksCh\<close> is always ready: the channel has room for
    \<^verbatim>\<open>len(keys)\<close> blocks and the loop sends at most that many.
  \<^item> \<open>GoExit\<close>: the loop has run \<^verbatim>\<open>len(keys)\<close> times and the goroutine returns.
  An event that is not enabled leaves the subscription as it is.
\<close>

datatype event = Publish nblock | Cancel | Shutdown | GoDone | GoRecv bool | GoExit

fun step :: "subscription \<Rightarrow> event \<Rightarrow> subscription" where
  "step s (Publish b) =
     (if registered s \<and> \<not> valuesClosed s \<and> Key b \<in> set (keys s)
         \<and> length (valuesCh s) < length (keys s)
      then s\<lparr>valuesCh := valuesCh s @ [BlockVal b]\<rparr>
      else s)"
| "step s Cancel = s\<lparr>ctxDone := True\<rparr>"
| "step s Shutdown = s\<lparr>valuesClosed := True, registered := False\<rparr>"
| "step s GoDone =
     (if running s \<and> 0 < remaining s \<and> ctxDone s then retire s else s)"
| "step s (GoRecv d) =
     (if running s \<and> 0 < remaining s then
        (case valuesCh s of
           [] \<Rightarrow> if valuesClosed s then retire s else s
         | v # vs \<Rightarrow>
             (case v of
                OtherVal \<Rightarrow> retire (s\<lparr>valuesCh := vs\<rparr>)
              | BlockVal b \<Rightarrow>
                  if d \<and> ctxDone s then retire (s\<lparr>valuesCh := vs\<rparr>)
                  else s\<lparr>valuesCh := vs, blocksCh := blocksCh s @ [b],
                         remaining := remaining s - 1\<rparr>))
      else s)"
| "step s GoExit =
     (if running s \<and> remaining s = 0 then retire s else s)"

definition run :: "subscription \<Rightarrow> event list \<Rightarrow> subscription" where
  "run s evs = foldl step s evs"




section \<open>Concrete environments\<close>

text \<open>
  The identity multihash (code 0), whose digest is the data itself; every other code is
  an unknown hash function.
\<close>

definition identityHash :: "nat \<Rightarrow> int \<Rightarrow> bytes \<Rightarrow> error + bytes" where
  "identityHash code len data =
     (if code = 0 then Inr data else Inl (ErrExternal ''unknown hash function''))"

text \<open>A gateway that answers every request with the same response.\<close>

definition constWorld :: "response \<Rightarrow> world" where
  "constWorld resp =
     \<lparr> newRequest = (\<lambda>u. None),
       clientDo = (\<lambda>req. Inr resp),
       bodyClose = (\<lambda>r. None),
       mhSum = identityHash,
       cidString = Digest,
       uDebug = False,
       randNext = (\<lambda>s. (nat (abs s), s + 1)) \<rparr>"

definition helloCid :: cid where
  "helloCid = Cid (CidPrefix 1 85 0 (- 1)) ''hello''"

definition oneGateway :: proxyBlockstore where
  "oneGateway =
     \<lparr> clientTimeout = 60, dialCachedDNS = False, gatewayURL = [''https://gw.example''],
       validate = True, rand = 0 \<rparr>"

definition exampleFetcher :: fetcher where
  "exampleFetcher = \<lparr> gateway = ''https://gw.example'', limit = 0, userAgent = [] \<rparr>"

text \<open>
  A gateway that serves two name records, and the names behind them: the record of
  \<open>k51self\<close> names \<open>/ipns/k51self\<close>, its own name; the record of \<open>k51good\<close> names
  \<open>/ipfs/hello\<close>; the DNSLink of \<open>example.org\<close> names \<open>/ipns/k51good\<close>. A record is
  kept as the path it holds, and every record is valid.
\<close>

definition recordWorld :: world where
  "recordWorld =
     \<lparr> newRequest = (\<lambda>u. None),
       clientDo = (\<lambda>req.
         if url req = ''https://gw.example/ipns/k51self''
         then Inr (Response 200 ''200 OK'' (Reader ''self'' None))
         else if url req = ''https://gw.example/ipns/k51good''
         then Inr (Response 200 ''200 OK'' (Reader ''good'' None))
         else Inr (Response 404 ''404 Not Found'' (Reader ''no such record'' None))),
       bodyClose = (\<lambda>r. None),
       mhSum = identityHash,
       cidString = Digest,
       uDebug = False,
       randNext = (\<lambda>s. (nat (abs s), s + 1)) \<rparr>"

definition recordNaming :: "path naming" where
  "recordNaming =
     \<lparr> NameFromString = (\<lambda>s.
         if s = ''k51self'' \<or> s = ''k51good'' then Inr s
         else Inl (ErrExternal ''not a name'')),
       UnmarshalRecord = (\<lambda>raw.
         if raw = ''self'' then Inr (Path IPNS ''k51self'' [])
         else if raw = ''good'' then Inr (Path IPFS ''hello'' [])
         else Inl (ErrExternal ''malformed record'')),
       ValidateWithName = (\<lambda>rec name. None),
       RecordValue = (\<lambda>rec. Inr rec),
       dnsResolve = (\<lambda>p.
         if Root p = ''example.org'' then Inr (Path IPNS ''k51good'' (Remainder p))
         else Inl (ErrExternal ''no DNSLink'')),
       MaxRecordSize = 10240 \<rparr>"

section \<open>Facts about the proxy block store\<close>

lemma fetch_result:
  "(\<exists>e. fst (fetch w ps c) = (None, Some e)) \<or>
   (\<exists>rb. fst (fetch w ps c) = (Some (Block rb c), None))"
  by (auto simp: fetch_def NewBlockWithCid_def Let_def
      split: prod.splits option.splits sum.splits if_splits)

lemma fetch_validated:
  "validate ps \<Longrightarrow> fst (fetch w ps c) = (Some blk, err) \<Longrightarrow>
     Sum w (Prefix c) (RawData blk) = Inr c \<and> BlockCid blk = c \<and> err = None"
  by (auto simp: fetch_def NewBlockWithCid_def Let_def
      split: prod.splits option.splits sum.splits if_splits)

lemma Sum_eq_iff:
  "Sum w (Prefix c) rb = Inr c \<longleftrightarrow>
     mhSum w (MhType (Prefix c)) (MhLength (Prefix c)) rb = Inr (Digest c)"
  by (cases c) (auto simp: Sum_def split: sum.splits)

lemma fetch_after_response:
  assumes "getRandomGatewayURL w ps = (Some gw, ps')"
    and "newRequest w (gw @ ''/ipfs/'' @ cidString w c @ ''?format=raw'') = None"
    and "clientDo w (Request (gw @ ''/ipfs/'' @ cidString w c @ ''?format=raw'')
           [(''Accept'', ''application/vnd.ipld.raw'')]) = Inr resp"
  shows "fetch w ps c =
     (if StatusCode resp \<noteq> 200
      then ((None, Some (ErrHttpBlockGateway (Status resp))), ps')
      else
        (case ReadAll (Body resp) of
           Inl err \<Rightarrow> ((None, Some err), ps')
         | Inr rb \<Rightarrow>
             if validate ps \<and> Sum w (Prefix c) rb \<noteq> Inr c
             then ((None, Some ErrWrongHash), ps')
             else (NewBlockWithCid w rb c, ps')))"
  using assms
  by (auto simp: fetch_def Let_def split: sum.splits)

lemma constWorld_gateway:
  "getRandomGatewayURL (constWorld resp) oneGateway =
     (Some ''https://gw.example'', oneGateway\<lparr>rand := 1\<rparr>)"
  by (simp add: getRandomGatewayURL_def constWorld_def oneGateway_def)

lemma constWorld_fields:
  "newRequest (constWorld resp) u = None"
  "clientDo (constWorld resp) req = Inr resp"
  "bodyClose (constWorld resp) r = None"
  "mhSum (constWorld resp) = identityHash"
  "cidString (constWorld resp) = Digest"
  "uDebug (constWorld resp) = False"
  by (simp_all add: constWorld_def)

section \<open>Properties of the proxy block store and of the HTTP exchange\<close>

text \<open>
  C1. A per-block fetch with verification enabled, whose request was answered with status
  200 and whose body \<open>rb\<close> was read: when the hash of \<open>rb\<close> under the hash function of
  the CID is not the digest of the CID, the fetch returns \<^verbatim>\<open>ErrWrongHash\<close> and no
  block. And whatever the gateway answers, a block that a verifying fetch returns carries
  the requested CID and bytes whose hash is its digest.
\<close>

theorem fetch_hash_mismatch_is_ErrWrongHash:
  assumes "validate ps"
  shows "(getRandomGatewayURL w ps = (Some gw, ps') \<and>
          newRequest w (gw @ ''/ipfs/'' @ cidString w c @ ''?format=raw'') = None \<and>
          clientDo w (Request (gw @ ''/ipfs/'' @ cidString w c @ ''?format=raw'')
            [(''Accept'', ''application/vnd.ipld.raw'')]) = Inr resp \<and>
          StatusCode resp = 200 \<and> ReadAll (Body resp) = Inr rb \<and>
          mhSum w (MhType (Prefix c)) (MhLength (Prefix c)) rb \<noteq> Inr (Digest c)
          \<longrightarrow> fetch w ps c = ((None, Some ErrWrongHash), ps'))
       \<and> (fst (fst (fetch w ps c)) = Some blk
          \<longrightarrow> BlockCid blk = c \<and>
              mhSum w (MhType (Prefix c)) (MhLength (Prefix c)) (RawData blk) = Inr (Digest c))"
proof (intro conjI impI)
  assume h: "getRandomGatewayURL w ps = (Some gw, ps') \<and>
          newRequest w (gw @ ''/ipfs/'' @ cidString w c @ ''?format=raw'') = None \<and>
          clientDo w (Request (gw @ ''/ipfs/'' @ cidString w c @ ''?format=raw'')
            [(''Accept'', ''application/vnd.ipld.raw'')]) = Inr resp \<and>
          StatusCode resp = 200 \<and> ReadAll (Body resp) = Inr rb \<and>
          mhSum w (MhType (Prefix c)) (MhLength (Prefix c)) rb \<noteq> Inr (Digest c)"
  then have "Sum w (Prefix c) rb \<noteq> Inr c"
    by (simp add: Sum_eq_iff)
  with h assms show "fetch w ps c = ((None, Some ErrWrongHash), ps')"
    by (simp add: fetch_after_response)
next
  assume "fst (fst (fetch w ps c)) = Some blk"
  then have "fst (fetch w ps c) = (Some blk, snd (fst (fetch w ps c)))"
    by (simp add: prod_eq_iff)
  from fetch_validated [OF assms this]
  have "Sum w (Prefix c) (RawData blk) = Inr c" and c: "BlockCid blk = c"
    by simp_all
  then have "mhSum w (MhType (Prefix c)) (MhLength (Prefix c)) (RawData blk) = Inr (Digest c)"
    by (simp add: Sum_eq_iff)
  with c show "BlockCid blk = c" 
    and "mhSum w (MhType (Prefix c)) (MhLength (Prefix c)) (RawData blk) = Inr (Digest c)"
    by simp_all
qed

theorem fetch_hash_mismatch_witness:
  "validate oneGateway
   \<and> fetch (constWorld (Response 200 ''200 OK'' (Reader ''hellp'' None))) oneGateway helloCid
       = ((None, Some ErrWrongHash), oneGateway\<lparr>rand := 1\<rparr>)
   \<and> fetch (constWorld (Response 200 ''200 OK'' (Reader ''hello'' None))) oneGateway helloCid
       = ((Some (Block ''hello'' helloCid), None), oneGateway\<lparr>rand := 1\<rparr>)
   \<and> mhSum (constWorld (Response 200 ''200 OK'' (Reader ''hello'' None)))
        (MhType (Prefix helloCid)) (MhLength (Prefix helloCid)) ''hello'' = Inr (Digest helloCid)"
proof -
  have v: "validate oneGateway"
    by (simp add: oneGateway_def)
  let ?bad = "constWorld (Response 200 ''200 OK'' (Reader ''hellp'' None))"
  let ?good = "constWorld (Response 200 ''200 OK'' (Reader ''hello'' None))"
  have bad: "fetch ?bad oneGateway helloCid = ((None, Some ErrWrongHash), oneGateway\<lparr>rand := 1\<rparr>)"
    using fetch_hash_mismatch_is_ErrWrongHash [OF v, of ?bad "''https://gw.example''"
        "oneGateway\<lparr>rand := 1\<rparr>" helloCid "Response 200 ''200 OK'' (Reader ''hellp'' None)"
        "''hellp''"]
    by (simp add: constWorld_gateway constWorld_fields ReadAll_def identityHash_def helloCid_def)
  have good: "fetch ?good oneGateway helloCid
       = ((Some (Block ''hello'' helloCid), None), oneGateway\<lparr>rand := 1\<rparr>)"
    by (simp add: fetch_after_response [OF constWorld_gateway] constWorld_fields ReadAll_def
        Sum_def identityHash_def helloCid_def NewBlockWithCid_def v)
  have "mhSum ?good (MhType (Prefix helloCid)) (MhLength (Prefix helloCid)) ''hello''
      = Inr (Digest helloCid)"
    using fetch_hash_mismatch_is_ErrWrongHash [OF v, of ?good _ _ helloCid _ _
        "Block ''hello'' helloCid"] good
    by simp
  with v bad good show ?thesis by simp
qed

lemma oneGateway_validate: "validate oneGateway"
  by (simp add: oneGateway_def)

lemma fetch_hello:
  "fetch (constWorld (Response 200 ''200 OK'' (Reader ''hello'' None))) oneGateway helloCid
     = ((Some (Block ''hello'' helloCid), None), oneGateway\<lparr>rand := 1\<rparr>)"
  by (simp add: fetch_after_response [OF constWorld_gateway] constWorld_fields ReadAll_def
      Sum_def identityHash_def helloCid_def NewBlockWithCid_def oneGateway_validate)

lemma fetch_hellp:
  "fetch (constWorld (Response 200 ''200 OK'' (Reader ''hellp'' None))) oneGateway helloCid
     = ((None, Some ErrWrongHash), oneGateway\<lparr>rand := 1\<rparr>)"
  by (simp add: fetch_after_response [OF constWorld_gateway] constWorld_fields ReadAll_def
      Sum_def identityHash_def helloCid_def NewBlockWithCid_def oneGateway_validate)

lemma fetch_keeps_validate: "validate (snd (fetch w ps c)) = validate ps"
  by (auto simp: fetch_def getRandomGatewayURL_def Let_def
      split: prod.splits option.splits sum.splits if_splits)

lemma fetch_success_verified:
  assumes "validate ps" and "snd (fst (fetch w ps c)) = None"
  shows "\<exists>rb. fst (fetch w ps c) = (Some (Block rb c), None) \<and> Sum w (Prefix c) rb = Inr c"
proof -
  from fetch_result [of w ps c] assms(2)
  obtain rb where rb: "fst (fetch w ps c) = (Some (Block rb c), None)"
    by auto
  from fetch_validated [OF assms(1) rb] have "Sum w (Prefix c) rb = Inr c"
    by simp
  with rb show ?thesis by blast
qed

text \<open>
  C5. The four write operations of the proxy block store return
  \<^verbatim>\<open>ErrNotImplemented\<close> for every store and every argument, and the store after the
  call is the store before it.
\<close>

theorem write_operations_not_implemented:
  "Put ps b = (Some ErrNotImplemented, ps)
   \<and> PutMany ps bs = (Some ErrNotImplemented, ps)
   \<and> DeleteBlock ps k = (Some ErrNotImplemented, ps)
   \<and> AllKeysChan ps = ((None, Some ErrNotImplemented), ps)"
  by (simp add: Put_def PutMany_def DeleteBlock_def AllKeysChan_def)

text \<open>
  C9. \<^verbatim>\<open>Has\<close> never answers \<open>(false, nil)\<close>. It runs the whole fetch (it leaves the
  store as the fetch leaves it), answers \<open>(true, nil)\<close> exactly when the fetch returns no
  error, and hands on the error of the fetch otherwise; a response with status 404 is
  such an error.
\<close>

theorem Has_never_false_and_nil:
  "fst (Has w ps c) \<noteq> (False, None)
   \<and> snd (Has w ps c) = snd (fetch w ps c)
   \<and> (fst (Has w ps c) = (True, None) \<longleftrightarrow> snd (fst (fetch w ps c)) = None)
   \<and> (snd (fst (fetch w ps c)) \<noteq> None
        \<longrightarrow> fst (Has w ps c) = (False, snd (fst (fetch w ps c))))
   \<and> (getRandomGatewayURL w ps = (Some gw, ps') \<and>
       newRequest w (gw @ ''/ipfs/'' @ cidString w c @ ''?format=raw'') = None \<and>
       clientDo w (Request (gw @ ''/ipfs/'' @ cidString w c @ ''?format=raw'')
         [(''Accept'', ''application/vnd.ipld.raw'')]) = Inr resp \<and>
       StatusCode resp = 404
        \<longrightarrow> Has w ps c = ((False, Some (ErrHttpBlockGateway (Status resp))), ps'))"
proof -
  obtain blk err ps2 where f: "fetch w ps c = ((blk, err), ps2)"
    by (metis surj_pair)
  from fetch_result [of w ps c] f
  have shape: "(blk = None \<and> err \<noteq> None) \<or> (blk \<noteq> None \<and> err = None)"
    by auto
  have 1: "fst (Has w ps c) \<noteq> (False, None)"
    using f shape by (auto simp: Has_def)
  have 2: "snd (Has w ps c) = snd (fetch w ps c)"
    using f by (simp add: Has_def)
  have 3: "fst (Has w ps c) = (True, None) \<longleftrightarrow> snd (fst (fetch w ps c)) = None"
    using f shape by (auto simp: Has_def)
  have 4: "snd (fst (fetch w ps c)) \<noteq> None
        \<longrightarrow> fst (Has w ps c) = (False, snd (fst (fetch w ps c)))"
    using f by (simp add: Has_def)
  have 5: "getRandomGatewayURL w ps = (Some gw, ps') \<and>
       newRequest w (gw @ ''/ipfs/'' @ cidString w c @ ''?format=raw'') = None \<and>
       clientDo w (Request (gw @ ''/ipfs/'' @ cidString w c @ ''?format=raw'')
         [(''Accept'', ''application/vnd.ipld.raw'')]) = Inr resp \<and>
       StatusCode resp = 404
        \<longrightarrow> Has w ps c = ((False, Some (ErrHttpBlockGateway (Status resp))), ps')"
    by (simp add: Has_def fetch_after_response)
  from 1 2 3 4 5 show ?thesis by blast
qed

theorem Has_never_false_and_nil_witness:
  "Has (constWorld (Response 404 ''404 Not Found'' (Reader ''no such block'' None)))
       oneGateway helloCid
     = ((False, Some (ErrHttpBlockGateway ''404 Not Found'')), oneGateway\<lparr>rand := 1\<rparr>)
   \<and> fst (Has (constWorld (Response 200 ''200 OK'' (Reader ''hello'' None)))
       oneGateway helloCid) = (True, None)"
proof -
  let ?w404 = "constWorld (Response 404 ''404 Not Found'' (Reader ''no such block'' None))"
  let ?w200 = "constWorld (Response 200 ''200 OK'' (Reader ''hello'' None))"
  have a: "Has ?w404 oneGateway helloCid
     = ((False, Some (ErrHttpBlockGateway ''404 Not Found'')), oneGateway\<lparr>rand := 1\<rparr>)"
    using Has_never_false_and_nil [of ?w404 oneGateway helloCid "''https://gw.example''"
        "oneGateway\<lparr>rand := 1\<rparr>" "Response 404 ''404 Not Found'' (Reader ''no such block'' None)"]
    by (simp add: constWorld_gateway constWorld_fields)
  have b: "fst (Has ?w200 oneGateway helloCid) = (True, None)"
    by (simp add: Has_def fetch_hello)
  from a b show ?thesis by simp
qed

text \<open>
  C8. A proxy block store that the constructor returns has \<open>validate\<close> set, and only
  \<^verbatim>\<open>HashOnRead\<close> changes it (a read keeps it). While it is set, each read operation that
  returns without error has fetched bytes whose hash under the prefix of the requested CID
  is that CID: \<^verbatim>\<open>Get\<close> returns exactly such a block, \<^verbatim>\<open>Has\<close> answers true and
  \<^verbatim>\<open>GetSize\<close> answers their length only for such bytes.
\<close>

theorem NewProxyBlockstore_validates_by_default:
  assumes "NewProxyBlockstore now urls cdns = (Some ps, err)"
  shows "validate ps
   \<and> validate (HashOnRead ps enabled) = enabled
   \<and> validate (snd (Get w ps c)) \<and> validate (snd (Has w ps c)) \<and> validate (snd (GetSize w ps c))
   \<and> (snd (fst (Get w ps c)) = None
        \<longrightarrow> (\<exists>rb. fst (Get w ps c) = (Some (Block rb c), None) \<and> Sum w (Prefix c) rb = Inr c))
   \<and> (snd (fst (Has w ps c)) = None
        \<longrightarrow> (\<exists>rb. fst (fetch w ps c) = (Some (Block rb c), None) \<and> Sum w (Prefix c) rb = Inr c))
   \<and> (snd (fst (GetSize w ps c)) = None
        \<longrightarrow> (\<exists>rb. fst (fetch w ps c) = (Some (Block rb c), None) \<and> Sum w (Prefix c) rb = Inr c
                 \<and> fst (fst (GetSize w ps c)) = Some (length rb)))"
proof -
  from assms have v: "validate ps"
    by (auto simp: NewProxyBlockstore_def split: if_splits)
  have h: "validate (HashOnRead ps enabled) = enabled"
    by (simp add: HashOnRead_def)
  obtain blk e ps2 where f: "fetch w ps c = ((blk, e), ps2)"
    by (metis surj_pair)
  from fetch_keeps_validate [of w ps c] v f have v2: "validate ps2"
    by simp
  have keep: "validate (snd (Get w ps c)) \<and> validate (snd (Has w ps c))
      \<and> validate (snd (GetSize w ps c))"
    using f v2 by (simp add: Get_def Has_def GetSize_def)
  have ok: "e = None \<Longrightarrow> \<exists>rb. blk = Some (Block rb c) \<and> Sum w (Prefix c) rb = Inr c"
    using fetch_success_verified [OF v, of w c] f by simp
  have g: "snd (fst (Get w ps c)) = None
        \<longrightarrow> (\<exists>rb. fst (Get w ps c) = (Some (Block rb c), None) \<and> Sum w (Prefix c) rb = Inr c)"
    using f ok by (auto simp: Get_def)
  have ha: "snd (fst (Has w ps c)) = None
        \<longrightarrow> (\<exists>rb. fst (fetch w ps c) = (Some (Block rb c), None) \<and> Sum w (Prefix c) rb = Inr c)"
    using f ok by (auto simp: Has_def split: if_splits)
  have gs: "snd (fst (GetSize w ps c)) = None
        \<longrightarrow> (\<exists>rb. fst (fetch w ps c) = (Some (Block rb c), None) \<and> Sum w (Prefix c) rb = Inr c
                 \<and> fst (fst (GetSize w ps c)) = Some (length rb))"
    using f ok by (auto simp: GetSize_def split: if_splits)
  from v h keep g ha gs show ?thesis by blast
qed

theorem NewProxyBlockstore_validates_witness:
  "NewProxyBlockstore 0 [''https://gw.example''] False = (Some oneGateway, None)
   \<and> validate oneGateway
   \<and> \<not> validate (HashOnRead oneGateway False)
   \<and> fst (Get (constWorld (Response 200 ''200 OK'' (Reader ''hello'' None))) oneGateway helloCid)
       = (Some (Block ''hello'' helloCid), None)
   \<and> Sum (constWorld (Response 200 ''200 OK'' (Reader ''hello'' None))) (Prefix helloCid) ''hello''
       = Inr helloCid
   \<and> fst (Get (constWorld (Response 200 ''200 OK'' (Reader ''hellp'' None))) oneGateway helloCid)
       = (None, Some ErrWrongHash)"
proof -
  let ?w = "constWorld (Response 200 ''200 OK'' (Reader ''hello'' None))"
  let ?bad = "constWorld (Response 200 ''200 OK'' (Reader ''hellp'' None))"
  have n: "NewProxyBlockstore 0 [''https://gw.example''] False = (Some oneGateway, None)"
    by (simp add: NewProxyBlockstore_def oneGateway_def getBlockTimeout_def)
  have g: "fst (Get ?w oneGateway helloCid) = (Some (Block ''hello'' helloCid), None)"
    by (simp add: Get_def fetch_hello)
  have gb: "fst (Get ?bad oneGateway helloCid) = (None, Some ErrWrongHash)"
    by (simp add: Get_def fetch_hellp)
  from NewProxyBlockstore_validates_by_default [OF n, of False ?w helloCid] g
  have "validate oneGateway" and "\<not> validate (HashOnRead oneGateway False)"
    and "Sum ?w (Prefix helloCid) ''hello'' = Inr helloCid"
    by auto
  with n g gb show ?thesis by simp
qed

lemma httpRequest_after_response:
  assumes "newRequest w (gateway f @ String p) = None"
    and "clientDo w (Request (gateway f @ String p)
           ((''Accept'', accept) #
            (if userAgent f \<noteq> [] then [(''User-Agent'', userAgent f)] else []))) = Inr resp"
  shows "httpRequest w f p accept =
     (if 400 \<le> StatusCode resp then
        (case ReadAll (Body resp) of
           Inl err \<Rightarrow> Inl (ErrReadingErrorBody err)
         | Inr mes \<Rightarrow> Inl (ErrGET (gateway f @ String p) (Status resp) mes))
      else if 0 < limit f then Inr (newLimitReadCloser (Body resp) (limit f))
      else Inr (Body resp))"
  using assms by (simp add: httpRequest_def Let_def)

text \<open>
  C3, as the code has it. \<^verbatim>\<open>fetcher.httpRequest\<close> turns a response whose status code is
  400 or more into an error that carries the URL, the response status and the body text
  (the read error when the body cannot be read), and takes every response below 400 as
  success, returning its body. The per-block \<^verbatim>\<open>fetch\<close> of the proxy block store takes
  status 200 only as success, and turns every other status into an error that carries the
  response status alone. The archive \<^verbatim>\<open>Fetch\<close> of the proxy block store takes status 200
  only as success as well, and turns every other status into an error that carries the
  response status and the body text.
\<close>

theorem http_status_handling:
  "(newRequest w (gateway f @ String p) = None \<and>
    clientDo w (Request (gateway f @ String p)
      ((''Accept'', accept) #
       (if userAgent f \<noteq> [] then [(''User-Agent'', userAgent f)] else []))) = Inr resp
    \<longrightarrow> (400 \<le> StatusCode resp \<and> ReadAll (Body resp) = Inr mes
           \<longrightarrow> httpRequest w f p accept
                 = Inl (ErrGET (gateway f @ String p) (Status resp) mes))
       \<and> (400 \<le> StatusCode resp \<and> ReadAll (Body resp) = Inl e
           \<longrightarrow> httpRequest w f p accept = Inl (ErrReadingErrorBody e))
       \<and> (StatusCode resp < 400
           \<longrightarrow> httpRequest w f p accept
                 = Inr (if 0 < limit f then newLimitReadCloser (Body resp) (limit f)
                        else Body resp)))
   \<and> (getRandomGatewayURL w ps = (Some gw, ps') \<and>
      newRequest w (gw @ ''/ipfs/'' @ cidString w c @ ''?format=raw'') = None \<and>
      clientDo w (Request (gw @ ''/ipfs/'' @ cidString w c @ ''?format=raw'')
        [(''Accept'', ''application/vnd.ipld.raw'')]) = Inr resp'
      \<longrightarrow> (StatusCode resp' \<noteq> 200
             \<longrightarrow> fetch w ps c = ((None, Some (ErrHttpBlockGateway (Status resp'))), ps'))
         \<and> (StatusCode resp' = 200 \<and> ReadAll (Body resp') = Inr rb \<and>
            (validate ps \<longrightarrow> Sum w (Prefix c) rb = Inr c)
             \<longrightarrow> fetch w ps c = (NewBlockWithCid w rb c, ps')))
   \<and> (getRandomGatewayURL w ps = (Some gw, ps') \<and>
      newRequest w (gw @ pth) = None \<and>
      clientDo w (Request (gw @ pth)
        [(''Accept'', ''application/vnd.ipld.car;order=dfs;dups=y'')]) = Inr resp''
      \<longrightarrow> (StatusCode resp'' \<noteq> 200 \<and> ReadAll (Body resp'') = Inr errData
             \<longrightarrow> Fetch w ps pth cb
                   = (Some (ErrHttpCarGateway (Status resp'') (ErrQuoted errData)), ps'))
         \<and> (StatusCode resp'' = 200
             \<longrightarrow> Fetch w ps pth cb
                   = ((case cb pth (Body resp'') of
                         Some err \<Rightarrow> Some err
                       | None \<Rightarrow> bodyClose w (Body resp'')), ps')))"
  by (auto simp: httpRequest_after_response fetch_after_response Fetch_def Let_def
      split: option.splits)

theorem http_status_handling_witness:
  "httpRequest (constWorld (Response 500 ''500 Internal Server Error'' (Reader ''boom'' None)))
       exampleFetcher (Path IPFS ''hello'' []) ''application/vnd.ipld.car''
     = Inl (ErrGET ''https://gw.example/ipfs/hello'' ''500 Internal Server Error'' ''boom'')
   \<and> httpRequest (constWorld (Response 200 ''200 OK'' (Reader ''archive'' None)))
       exampleFetcher (Path IPFS ''hello'' []) ''application/vnd.ipld.car''
     = Inr (Reader ''archive'' None)
   \<and> fetch (constWorld (Response 404 ''404 Not Found'' (Reader ''no such block'' None)))
       oneGateway helloCid
     = ((None, Some (ErrHttpBlockGateway ''404 Not Found'')), oneGateway\<lparr>rand := 1\<rparr>)
   \<and> fetch (constWorld (Response 200 ''200 OK'' (Reader ''hello'' None))) oneGateway helloCid
     = ((Some (Block ''hello'' helloCid), None), oneGateway\<lparr>rand := 1\<rparr>)
   \<and> Fetch (constWorld (Response 500 ''500 Internal Server Error'' (Reader ''boom'' None)))
       oneGateway ''/ipfs/hello'' (\<lambda>resource r. None)
     = (Some (ErrHttpCarGateway ''500 Internal Server Error'' (ErrQuoted ''boom'')),
        oneGateway\<lparr>rand := 1\<rparr>)"
proof -
  let ?p = "Path IPFS ''hello'' []"
  have u: "gateway exampleFetcher @ String ?p = ''https://gw.example/ipfs/hello''"
    by (simp add: exampleFetcher_def String_def Segments_def namespaceString_def)
  have ua: "userAgent exampleFetcher = []" and l: "limit exampleFetcher = 0"
    by (simp_all add: exampleFetcher_def)
  let ?w500 = "constWorld (Response 500 ''500 Internal Server Error'' (Reader ''boom'' None))"
  let ?w200c = "constWorld (Response 200 ''200 OK'' (Reader ''archive'' None))"
  let ?w404 = "constWorld (Response 404 ''404 Not Found'' (Reader ''no such block'' None))"
  let ?w200 = "constWorld (Response 200 ''200 OK'' (Reader ''hello'' None))"
  have a: "httpRequest ?w500 exampleFetcher ?p ''application/vnd.ipld.car''
     = Inl (ErrGET ''https://gw.example/ipfs/hello'' ''500 Internal Server Error'' ''boom'')"
    using http_status_handling [of ?w500 exampleFetcher ?p "''application/vnd.ipld.car''"
        "Response 500 ''500 Internal Server Error'' (Reader ''boom'' None)" "''boom''"]
    by (simp add: constWorld_fields ReadAll_def u ua)
  have b: "httpRequest ?w200c exampleFetcher ?p ''application/vnd.ipld.car''
     = Inr (Reader ''archive'' None)"
    using http_status_handling [of ?w200c exampleFetcher ?p "''application/vnd.ipld.car''"
        "Response 200 ''200 OK'' (Reader ''archive'' None)"]
    by (simp add: constWorld_fields u ua l)
  have c: "fetch ?w404 oneGateway helloCid
     = ((None, Some (ErrHttpBlockGateway ''404 Not Found'')), oneGateway\<lparr>rand := 1\<rparr>)"
    using http_status_handling [of ?w404 _ _ _ _ _ _ oneGateway "''https://gw.example''"
        "oneGateway\<lparr>rand := 1\<rparr>" helloCid
        "Response 404 ''404 Not Found'' (Reader ''no such block'' None)"]
    by (simp add: constWorld_gateway constWorld_fields)
  have d: "fetch ?w200 oneGateway helloCid
     = ((Some (Block ''hello'' helloCid), None), oneGateway\<lparr>rand := 1\<rparr>)"
    using http_status_handling [of ?w200 _ _ _ _ _ _ oneGateway "''https://gw.example''"
        "oneGateway\<lparr>rand := 1\<rparr>" helloCid
        "Response 200 ''200 OK'' (Reader ''hello'' None)" "''hello''"]
    by (simp add: constWorld_gateway constWorld_fields ReadAll_def Sum_def identityHash_def
        helloCid_def NewBlockWithCid_def)
  have e: "Fetch ?w500 oneGateway ''/ipfs/hello'' (\<lambda>resource r. None)
     = (Some (ErrHttpCarGateway ''500 Internal Server Error'' (ErrQuoted ''boom'')),
        oneGateway\<lparr>rand := 1\<rparr>)"
    using http_status_handling [where w = ?w500 and ps = oneGateway
        and gw = "''https://gw.example''" and ps' = "oneGateway\<lparr>rand := 1\<rparr>"
        and pth = "''/ipfs/hello''"
        and resp'' = "Response 500 ''500 Internal Server Error'' (Reader ''boom'' None)"
        and errData = "''boom''" and cb = "\<lambda>resource r. None"]
    by (simp add: constWorld_gateway constWorld_fields ReadAll_def)
  from a b c d e show ?thesis by simp
qed

text \<open>
  C3, as the specification words it, fails twice. Status 206 is in the 2xx range, and the per-block
  fetch turns it into an error (which carries the status and not the body text). Status
  304 is outside the 2xx range, and \<^verbatim>\<open>httpRequest\<close> takes it as success.
\<close>

theorem http_status_counterexample:
  "(200::int) \<le> 206 \<and> (206::int) < 300
   \<and> fetch (constWorld (Response 206 ''206 Partial Content'' (Reader ''hello'' None)))
        oneGateway helloCid
      = ((None, Some (ErrHttpBlockGateway ''206 Partial Content'')), oneGateway\<lparr>rand := 1\<rparr>)
   \<and> \<not> ((200::int) \<le> 304 \<and> (304::int) < 300)
   \<and> httpRequest (constWorld (Response 304 ''304 Not Modified'' (Reader ''stale'' None)))
        exampleFetcher (Path IPFS ''hello'' []) ''application/vnd.ipld.car''
      = Inr (Reader ''stale'' None)"
proof -
  have u: "gateway exampleFetcher @ String (Path IPFS ''hello'' []) = ''https://gw.example/ipfs/hello''"
    by (simp add: exampleFetcher_def String_def Segments_def namespaceString_def)
  have a: "fetch (constWorld (Response 206 ''206 Partial Content'' (Reader ''hello'' None)))
        oneGateway helloCid
      = ((None, Some (ErrHttpBlockGateway ''206 Partial Content'')), oneGateway\<lparr>rand := 1\<rparr>)"
    by (simp add: fetch_after_response [OF constWorld_gateway] constWorld_fields)
  have b: "httpRequest (constWorld (Response 304 ''304 Not Modified'' (Reader ''stale'' None)))
        exampleFetcher (Path IPFS ''hello'' []) ''application/vnd.ipld.car''
      = Inr (Reader ''stale'' None)"
    by (simp add: httpRequest_after_response constWorld_fields u)
       (simp add: exampleFetcher_def)
  from a b show ?thesis by simp
qed

lemma constructors_reject_empty:
  "newFetcher [] options = Inl ErrGatewayMustBeSet"
  "NewProxyBlockstore now [] cdns = (None, Some ErrMissingGatewayURLs)"
  "NewProxyBlockstore now urls cdns = (Some ps, err) \<Longrightarrow> gatewayURL ps \<noteq> []"
  "newFetcher gw options = Inr f \<Longrightarrow> gw \<noteq> []"
  by (auto simp: newFetcher_def NewProxyBlockstore_def split: if_splits)

text \<open>
  C10 at the gateway string \<open>/\<close>, with the two options that \<^verbatim>\<open>run\<close> passes. The string
  is not empty, so the check \<^verbatim>\<open>gateway == ""\<close> lets it through; trimming its trailing
  slashes leaves nothing, and the constructor returns a fetcher whose gateway is empty.
\<close>

theorem newFetcher_slash_has_empty_gateway:
  "newFetcher ''/'' [withUserAgent [], withLimit 0]
     = Inr \<lparr> gateway = [], limit = 0, userAgent = [] \<rparr>"
  by (simp add: newFetcher_def TrimRight_def withUserAgent_def withLimit_def)

section \<open>Facts about path resolution\<close>

lemma resolvePathWithin_resolvePath:
  "resolvePathWithin n w nm f p = Some r \<Longrightarrow> resolvePath w nm f p = Some r"
proof (induction n arbitrary: p)
  case 0
  then show ?case
    by (subst resolvePath.simps) (simp split: if_splits)
next
  case (Suc n)
  show ?case
  proof (cases "Mutable p")
    case False
    with Suc.prems show ?thesis
      by (subst resolvePath.simps) simp
  next
    case True
    show ?thesis
    proof (cases "resolveStep w nm f p")
      case (Inl err)
      with True Suc.prems show ?thesis
        by (subst resolvePath.simps) auto
    next
      case (Inr p')
      with True Suc.prems have "resolvePathWithin n w nm f p' = Some r"
        by simp
      then have "resolvePath w nm f p' = Some r"
        by (rule Suc.IH)
      with True Inr show ?thesis
        by (subst resolvePath.simps) simp
    qed
  qed
qed

lemma resolvePath_resolvePathWithin:
  assumes "resolvePath w nm f p = Some r"
  shows "\<exists>n. resolvePathWithin n w nm f p = Some r"
proof (rule resolvePath.raw_induct
    [where P = "\<lambda>w nm f p r. \<exists>n. resolvePathWithin n w nm f p = Some r", OF _ assms])
  fix rp :: "world \<Rightarrow> 'a naming \<Rightarrow> fetcher \<Rightarrow> path \<Rightarrow> (error + path) option"
    and w nm f p r
  assume IH: "\<And>w nm f p r. rp w nm f p = Some r \<Longrightarrow> \<exists>n. resolvePathWithin n w nm f p = Some r"
    and body: "(if Mutable p then
        (case resolveStep w nm f p of
           Inl err \<Rightarrow> Some (Inl err)
         | Inr p' \<Rightarrow> rp w nm f p')
      else Some (NewImmutablePath p)) = Some r"
  show "\<exists>n. resolvePathWithin n w nm f p = Some r"
  proof (cases "Mutable p")
    case False
    with body have "resolvePathWithin 0 w nm f p = Some r"
      by simp
    then show ?thesis ..
  next
    case True
    show ?thesis
    proof (cases "resolveStep w nm f p")
      case (Inl err)
      with True body have "resolvePathWithin (Suc 0) w nm f p = Some r"
        by auto
      then show ?thesis ..
    next
      case (Inr p')
      with True body have "rp w nm f p' = Some r"
        by simp
      then obtain n where "resolvePathWithin n w nm f p' = Some r"
        using IH by blast
      with True Inr have "resolvePathWithin (Suc n) w nm f p = Some r"
        by simp
      then show ?thesis ..
    qed
  qed
qed

lemma resolvePathWithin_immutable:
  "resolvePathWithin n w nm f p = Some (Inr q) \<Longrightarrow> \<not> Mutable q"
  by (induction n arbitrary: p)
     (auto simp: NewImmutablePath_def split: if_splits sum.splits)

lemma resolvePathWithin_self:
  "Mutable p \<Longrightarrow> resolveStep w nm f p = Inr p \<Longrightarrow> resolvePathWithin n w nm f p = None"
  by (induction n) simp_all

lemma resolvePath_self:
  assumes "Mutable p" and "resolveStep w nm f p = Inr p"
  shows "resolvePath w nm f p = None"
proof (cases "resolvePath w nm f p")
  case None
  then show ?thesis .
next
  case (Some r)
  then obtain n where "resolvePathWithin n w nm f p = Some r"
    using resolvePath_resolvePathWithin by blast
  with resolvePathWithin_self [OF assms, of n] show ?thesis
    by simp
qed

lemma resolvePath_immutable:
  "\<not> Mutable p \<Longrightarrow> resolvePath w nm f p = Some (Inr p)"
  by (subst resolvePath.simps) (simp add: NewImmutablePath_def)

lemma recordWorld_fields:
  "newRequest recordWorld u = None"
  "clientDo recordWorld (Request ''https://gw.example/ipns/k51self'' hs)
     = Inr (Response 200 ''200 OK'' (Reader ''self'' None))"
  "clientDo recordWorld (Request ''https://gw.example/ipns/k51good'' hs)
     = Inr (Response 200 ''200 OK'' (Reader ''good'' None))"
  by (simp_all add: recordWorld_def)

lemma step_k51self:
  "resolveStep recordWorld recordNaming exampleFetcher (Path IPNS ''k51self'' rest)
     = Inr (Path IPNS ''k51self'' [])"
proof -
  have u: "gateway exampleFetcher @ String (AsPath ''k51self'') = ''https://gw.example/ipns/k51self''"
    by (simp add: exampleFetcher_def String_def Segments_def namespaceString_def AsPath_def)
  have h: "httpRequest recordWorld exampleFetcher (AsPath ''k51self'')
      ''application/vnd.ipfs.ipns-record'' = Inr (Reader ''self'' None)"
    by (simp add: httpRequest_after_response u recordWorld_fields)
       (simp add: exampleFetcher_def)
  have seg: "Segments (Path IPNS ''k51self'' rest) ! 1 = ''k51self''"
    by (simp add: Segments_def)
  have nfs: "NameFromString recordNaming ''k51self'' = Inr ''k51self''"
    by (simp add: recordNaming_def)
  have ipns: "resolveIPNS recordWorld recordNaming exampleFetcher ''k51self'' = Inr (Path IPNS ''k51self'' [])"
    by (simp add: resolveIPNS_def h) (simp add: recordNaming_def newLimitReadCloser_def ReadAll_def)
  show ?thesis
    unfolding resolveStep_def seg nfs by (simp add: ipns)
qed

lemma step_k51good:
  "resolveStep recordWorld recordNaming exampleFetcher (Path IPNS ''k51good'' rest)
     = Inr (Path IPFS ''hello'' [])"
proof -
  have u: "gateway exampleFetcher @ String (AsPath ''k51good'') = ''https://gw.example/ipns/k51good''"
    by (simp add: exampleFetcher_def String_def Segments_def namespaceString_def AsPath_def)
  have h: "httpRequest recordWorld exampleFetcher (AsPath ''k51good'')
      ''application/vnd.ipfs.ipns-record'' = Inr (Reader ''good'' None)"
    by (simp add: httpRequest_after_response u recordWorld_fields)
       (simp add: exampleFetcher_def)
  have seg: "Segments (Path IPNS ''k51good'' rest) ! 1 = ''k51good''"
    by (simp add: Segments_def)
  have nfs: "NameFromString recordNaming ''k51good'' = Inr ''k51good''"
    by (simp add: recordNaming_def)
  have ipns: "resolveIPNS recordWorld recordNaming exampleFetcher ''k51good'' = Inr (Path IPFS ''hello'' [])"
    by (simp add: resolveIPNS_def h) (simp add: recordNaming_def newLimitReadCloser_def ReadAll_def)
  show ?thesis
    unfolding resolveStep_def seg nfs by (simp add: ipns)
qed

lemma step_example_org:
  "resolveStep recordWorld recordNaming exampleFetcher (Path IPNS ''example.org'' rest)
     = Inr (Path IPNS ''k51good'' rest)"
proof -
  have seg: "Segments (Path IPNS ''example.org'' rest) ! 1 = ''example.org''"
    by (simp add: Segments_def)
  have nfs: "NameFromString recordNaming ''example.org'' = Inl (ErrExternal ''not a name'')"
    by (simp add: recordNaming_def)
  have dns: "resolveDNSLink recordNaming (Path IPNS ''example.org'' rest)
      = Inr (Path IPNS ''k51good'' rest)"
    by (simp add: resolveDNSLink_def recordNaming_def)
  show ?thesis
    unfolding resolveStep_def seg nfs by (simp add: dns)
qed

lemma resolve_example_org:
  "resolvePath recordWorld recordNaming exampleFetcher (Path IPNS ''example.org'' [''a''])
     = Some (Inr (Path IPFS ''hello'' []))"
proof -
  have "resolvePathWithin (Suc (Suc 0)) recordWorld recordNaming exampleFetcher
      (Path IPNS ''example.org'' [''a'']) = Some (Inr (Path IPFS ''hello'' []))"
    by (simp add: step_example_org step_k51good Mutable_def NewImmutablePath_def)
  then show ?thesis
    by (rule resolvePathWithin_resolvePath)
qed

text \<open>
  C2, as the code has it. Each iteration of the loop follows one record or one DNSLink.
  Path resolution returns exactly when cutting the loop off after some number of
  iterations gives a result, and it returns that result: the immutable path reached, or
  the error of the step that failed. Nothing bounds the number of iterations and nothing
  compares the new path with the prior one: where a step gives back the mutable path it
  was given, resolution never returns.
\<close>

theorem resolvePath_returns_iff:
  "(resolvePath w nm f p = Some r \<longleftrightarrow> (\<exists>n. resolvePathWithin n w nm f p = Some r))
   \<and> (Mutable p \<and> resolveStep w nm f p = Inr p \<longrightarrow> resolvePath w nm f p = None)"
  using resolvePathWithin_resolvePath resolvePath_resolvePathWithin resolvePath_self
  by blast

theorem resolvePath_returns_iff_witness:
  "resolvePath recordWorld recordNaming exampleFetcher (Path IPNS ''example.org'' [''a''])
     = Some (Inr (Path IPFS ''hello'' []))
   \<and> resolvePathWithin 2 recordWorld recordNaming exampleFetcher
       (Path IPNS ''example.org'' [''a'']) = Some (Inr (Path IPFS ''hello'' []))
   \<and> Mutable (Path IPNS ''k51self'' [])
   \<and> resolvePath recordWorld recordNaming exampleFetcher (Path IPNS ''k51self'' []) = None"
proof -
  have w: "resolvePathWithin 2 recordWorld recordNaming exampleFetcher
      (Path IPNS ''example.org'' [''a'']) = Some (Inr (Path IPFS ''hello'' []))"
    by (simp add: numeral_2_eq_2 step_example_org step_k51good Mutable_def NewImmutablePath_def)
  have m: "Mutable (Path IPNS ''k51self'' [])"
    by (simp add: Mutable_def)
  from resolvePath_returns_iff [of recordWorld recordNaming exampleFetcher
      "Path IPNS ''example.org'' [''a'']" "Inr (Path IPFS ''hello'' [])"] w
  have a: "resolvePath recordWorld recordNaming exampleFetcher (Path IPNS ''example.org'' [''a''])
     = Some (Inr (Path IPFS ''hello'' []))"
    by blast
  from resolvePath_returns_iff [of recordWorld recordNaming exampleFetcher
      "Path IPNS ''k51self'' []"] m step_k51self [of "[]"]
  have b: "resolvePath recordWorld recordNaming exampleFetcher (Path IPNS ''k51self'' []) = None"
    by blast
  from a w m b show ?thesis by simp
qed

text \<open>
  C2, as the specification words it, fails at the name \<open>k51self\<close>, whose valid record names
  \<open>/ipns/k51self\<close>: the iteration gives back the path it started from, and resolution
  does not return, with a cycle error or otherwise.
\<close>

theorem resolvePath_cycle_counterexample:
  "resolveStep recordWorld recordNaming exampleFetcher (Path IPNS ''k51self'' [])
     = Inr (Path IPNS ''k51self'' [])
   \<and> resolvePath recordWorld recordNaming exampleFetcher (Path IPNS ''k51self'' []) = None"
proof -
  have "Mutable (Path IPNS ''k51self'' [])"
    by (simp add: Mutable_def)
  then show ?thesis
    using step_k51self [of "[]"] resolvePath_self by blast
qed

text \<open>
  C6. Resolving an immutable path returns that path unchanged, and a path that resolution
  returns resolves to itself: resolving twice gives what resolving once gives.
\<close>

theorem resolvePath_idempotent:
  "(\<not> Mutable p \<longrightarrow> resolvePath w nm f p = Some (Inr p))
   \<and> (resolvePath w nm f p = Some (Inr q) \<longrightarrow> resolvePath w nm f q = Some (Inr q))"
proof (intro conjI impI)
  assume "\<not> Mutable p"
  then show "resolvePath w nm f p = Some (Inr p)"
    by (rule resolvePath_immutable)
next
  assume "resolvePath w nm f p = Some (Inr q)"
  then obtain n where "resolvePathWithin n w nm f p = Some (Inr q)"
    using resolvePath_resolvePathWithin by blast
  then have "\<not> Mutable q"
    by (rule resolvePathWithin_immutable)
  then show "resolvePath w nm f q = Some (Inr q)"
    by (rule resolvePath_immutable)
qed

theorem resolvePath_idempotent_witness:
  "\<not> Mutable (Path IPFS ''hello'' [''a''])
   \<and> resolvePath recordWorld recordNaming exampleFetcher (Path IPFS ''hello'' [''a''])
       = Some (Inr (Path IPFS ''hello'' [''a'']))
   \<and> resolvePath recordWorld recordNaming exampleFetcher (Path IPNS ''example.org'' [''a''])
       = Some (Inr (Path IPFS ''hello'' []))
   \<and> resolvePath recordWorld recordNaming exampleFetcher (Path IPFS ''hello'' [])
       = Some (Inr (Path IPFS ''hello'' []))"
proof -
  have m: "\<not> Mutable (Path IPFS ''hello'' [''a''])"
    by (simp add: Mutable_def)
  from resolvePath_idempotent [of "Path IPFS ''hello'' [''a'']" recordWorld recordNaming
      exampleFetcher] m
  have a: "resolvePath recordWorld recordNaming exampleFetcher (Path IPFS ''hello'' [''a''])
       = Some (Inr (Path IPFS ''hello'' [''a'']))"
    by blast
  from resolvePath_idempotent [of "Path IPNS ''example.org'' [''a'']" recordWorld recordNaming
      exampleFetcher "Path IPFS ''hello'' []"] resolve_example_org
  have b: "resolvePath recordWorld recordNaming exampleFetcher (Path IPFS ''hello'' [])
       = Some (Inr (Path IPFS ''hello'' []))"
    by blast
  from m a b resolve_example_org show ?thesis by simp
qed

section \<open>Facts about archive ingestion\<close>

lemma addAllBlocks_end: "addAllBlocks w bs [] = (None, bs, [])"
  by (simp add: addAllBlocks.simps [of w bs "[]"] Next_def)

lemma addAllBlocks_verified:
  assumes "Sum w (Prefix c) d = Inr c"
  shows "addAllBlocks w bs (Frame c d # fs) = addAllBlocks w (snd (blockStorePut bs (Block d c))) fs"
proof -
  have n: "Next w (Frame c d # fs) = ((Some (Block d c), None), fs)"
    using assms by (simp add: Next_def NewBlockWithCid_def)
  show ?thesis
    by (simp add: addAllBlocks.simps [of w bs "Frame c d # fs"] n blockStorePut_def)
qed

lemma addAllBlocks_mismatch:
  assumes "Sum w (Prefix c) d = Inr h" and "h \<noteq> c"
  shows "addAllBlocks w bs (Frame c d # fs)
     = (Some (ErrReadingBlockFromCar (ErrContentIntegrity c h)), bs, fs)"
proof -
  have n: "Next w (Frame c d # fs) = ((None, Some (ErrContentIntegrity c h)), fs)"
    using assms by (simp add: Next_def)
  show ?thesis
    by (simp add: addAllBlocks.simps [of w bs "Frame c d # fs"] n)
qed

text \<open>
  C7. An archive with a well-formed header and the sections A, B, C in this order, where
  the bytes of A hash to the CID of A and the bytes of B hash to something other than the
  CID of B. Whatever the materializer is, \<^verbatim>\<open>carToFileStream\<close> returns the error of
  reading B, which names the CID of B and the hash found. When it returns, the block
  store holds A and nothing else, and C is the one section that has not been read.
\<close>

theorem carToFileStream_stops_at_bad_block:
  assumes "Sum w (Prefix cA) dA = Inr cA"
    and "Sum w (Prefix cB) dB = Inr h" and "h \<noteq> cB"
  shows "carToFileStream w materialize (Car None [Frame cA dA, Frame cB dB, Frame cC dC]) imPath
     = (Inl (ErrReadingBlockFromCar (ErrContentIntegrity cB h)),
        [cA \<mapsto> dA],
        [Frame cC dC])"
  by (simp add: carToFileStream_def NewBlockReader_def addAllBlocks_verified [OF assms(1)]
      addAllBlocks_mismatch [OF assms(2,3)] blockStorePut_def)

theorem carToFileStream_stops_at_bad_block_witness:
  "Sum (constWorld (Response 200 ''200 OK'' (Reader [] None))) (Prefix helloCid) ''hello''
     = Inr helloCid
   \<and> Sum (constWorld (Response 200 ''200 OK'' (Reader [] None)))
       (Prefix (Cid (CidPrefix 1 85 0 (- 1)) ''world'')) ''w0rld''
     = Inr (Cid (CidPrefix 1 85 0 (- 1)) ''w0rld'')
   \<and> Cid (CidPrefix 1 85 0 (- 1)) ''w0rld'' \<noteq> Cid (CidPrefix 1 85 0 (- 1)) ''world''
   \<and> carToFileStream (constWorld (Response 200 ''200 OK'' (Reader [] None)))
       (\<lambda>bs p. Inr ''file'')
       (Car None [Frame helloCid ''hello'',
                  Frame (Cid (CidPrefix 1 85 0 (- 1)) ''world'') ''w0rld'',
                  Frame (Cid (CidPrefix 1 85 0 (- 1)) ''!'') ''!''])
       (Path IPFS ''hello'' [])
     = (Inl (ErrReadingBlockFromCar
              (ErrContentIntegrity (Cid (CidPrefix 1 85 0 (- 1)) ''world'')
                 (Cid (CidPrefix 1 85 0 (- 1)) ''w0rld''))),
        [helloCid \<mapsto> ''hello''],
        [Frame (Cid (CidPrefix 1 85 0 (- 1)) ''!'') ''!''])"
proof -
  let ?w = "constWorld (Response 200 ''200 OK'' (Reader [] None))"
  have a: "Sum ?w (Prefix helloCid) ''hello'' = Inr helloCid"
    by (simp add: Sum_def constWorld_fields identityHash_def helloCid_def)
  have b: "Sum ?w (Prefix (Cid (CidPrefix 1 85 0 (- 1)) ''world'')) ''w0rld''
     = Inr (Cid (CidPrefix 1 85 0 (- 1)) ''w0rld'')"
    by (simp add: Sum_def constWorld_fields identityHash_def)
  have c: "Cid (CidPrefix 1 85 0 (- 1)) ''w0rld'' \<noteq> Cid (CidPrefix 1 85 0 (- 1)) ''world''"
    by simp
  from carToFileStream_stops_at_bad_block [OF a b c] a b c show ?thesis
    by simp
qed

section \<open>Facts about the notification bus\<close>




lemma run_snoc: "run s (evs @ [e]) = step (run s evs) e"
  by (simp add: run_def)









end
